theory Spec2Isabelle
  imports Main "HOL-Library.Char_ord" "HOL-Library.List_Lexorder"
begin

section \<open>The whisper board of app.py\<close>

text \<open>
  A shallow embedding of the request handlers and the retention sweep of \<^verbatim>\<open>src/app.py\<close>.

  Scope of the model.
  \<^item> The two JSON files hold lists of records of the shape the program itself writes:
    a whisper has the keys \<^verbatim>\<open>id\<close>, \<^verbatim>\<open>content\<close>, \<^verbatim>\<open>is_sensitive\<close>, \<^verbatim>\<open>replies_count\<close>,
    \<^verbatim>\<open>created_at\<close> and possibly \<^verbatim>\<open>topic\<close> (the code reads it with a default); a reply has
    \<^verbatim>\<open>id\<close>, \<^verbatim>\<open>whisper_id\<close>, \<^verbatim>\<open>content\<close>, \<^verbatim>\<open>created_at\<close>. A file that cannot be opened or
    parsed is \<open>Unreadable\<close>.
  \<^item> Request bodies are JSON values (numbers with a fraction are left out).
  \<^item> A string is the list of its characters. The code never looks inside a content
    string but to strip it; topics and timestamps are compared character by character.
  \<^item> A datetime is its number of microseconds since the epoch.
  \<^item> The library functions the code calls on strings and datetimes, \<^verbatim>\<open>str.strip\<close>,
    \<^verbatim>\<open>isoformat\<close> and \<^verbatim>\<open>fromisoformat\<close>, are parameters of the model (a record
    \<open>python_lib\<close>): the theorems hold for whatever these functions compute, so for
    Python's own, with every whitespace character that \<^verbatim>\<open>str.strip\<close> removes. Only the
    examples fix them, at the inputs they use.
  \<^item> The clock and the disk are oracles of the world: the \<open>n\<close>-th reading of
    \<^verbatim>\<open>datetime.now\<close> and the outcome of the \<open>n\<close>-th attempt to write a file.
  \<^item> Handlers run one at a time; the interleaving of the sweeper thread with request
    threads is not modelled.
\<close>

subsection \<open>JSON values and Python's operations on them\<close>

datatype json =
    JNull
  | JBool bool
  | JInt int
  | JStr string
  | JList "json list"
  | JObj "(string \<times> json) list"

datatype py_exception = AttributeError | TypeError | ValueError | UnboundLocalError

text \<open>\<^verbatim>\<open>str(e)\<close>: the model keeps the name of the exception's class for its text.\<close>

fun str_of :: "py_exception \<Rightarrow> string" where
  "str_of AttributeError = ''AttributeError''"
| "str_of TypeError = ''TypeError''"
| "str_of ValueError = ''ValueError''"
| "str_of UnboundLocalError = ''UnboundLocalError''"

text \<open>Truth value testing: \<^verbatim>\<open>not x\<close> is \<open>\<not> truthy x\<close>.\<close>

fun truthy :: "json \<Rightarrow> bool" where
  "truthy JNull = False"
| "truthy (JBool b) = b"
| "truthy (JInt n) = (n \<noteq> 0)"
| "truthy (JStr s) = (s \<noteq> [])"
| "truthy (JList xs) = (xs \<noteq> [])"
| "truthy (JObj kvs) = (kvs \<noteq> [])"

text \<open>
  \<^verbatim>\<open>data.get(key, default)\<close>: only a dict has \<^verbatim>\<open>get\<close>. \<^verbatim>\<open>json.loads\<close> keeps the last
  value of a repeated key.
\<close>

fun dict_get :: "json \<Rightarrow> string \<Rightarrow> json \<Rightarrow> py_exception + json" where
  "dict_get (JObj kvs) k dflt =
     Inr (case map_of (rev kvs) k of None \<Rightarrow> dflt | Some v \<Rightarrow> v)"
| "dict_get _ k dflt = Inl AttributeError"

text \<open>\<^verbatim>\<open>s.replace('Z', '+00:00')\<close>.\<close>

definition replace_Z :: "string \<Rightarrow> string" where
  "replace_Z s = concat (map (\<lambda>c. if c = CHR ''Z'' then ''+00:00'' else [c]) s)"

text \<open>\<^verbatim>\<open>max(xs, default=d)\<close> on integers.\<close>

fun max_default :: "int list \<Rightarrow> int \<Rightarrow> int" where
  "max_default [] d = d"
| "max_default (x # xs) d = fold max xs x"

text \<open>
  \<^verbatim>\<open>xs.sort(key=key, reverse=True)\<close>: the list is reversed, sorted stably in ascending
  order and reversed again, so equal keys keep their order.
\<close>

definition sort_reverse :: "('a \<Rightarrow> 'k::linorder) \<Rightarrow> 'a list \<Rightarrow> 'a list" where
  "sort_reverse key xs = rev (sort_key key (rev xs))"

subsection \<open>Library functions and datetimes\<close>

text \<open>
  \<open>fromisoformat\<close> raises ValueError on a malformed string (\<open>None\<close>), and returns a
  naive datetime when the string has no offset. Comparing an aware datetime with a naive
  one raises TypeError. \<open>str_strip\<close> is \<^verbatim>\<open>str.strip\<close> without argument.
\<close>

datatype parsed = Aware int | Naive int

record python_lib =
  isoformat :: "int \<Rightarrow> string"
  fromisoformat :: "string \<Rightarrow> parsed option"
  str_strip :: "string \<Rightarrow> string"

text \<open>\<^verbatim>\<open>value.strip()\<close> on a JSON value: only a string has \<^verbatim>\<open>strip\<close>.\<close>

fun json_strip :: "python_lib \<Rightarrow> json \<Rightarrow> py_exception + string" where
  "json_strip L (JStr s) = Inr (str_strip L s)"
| "json_strip L _ = Inl AttributeError"

definition timedelta_hours :: "int \<Rightarrow> int" where
  "timedelta_hours h = h * 3600 * 1000000"

text \<open>\<^verbatim>\<open>a > b\<close> for an aware datetime \<open>a\<close>.\<close>

fun aware_gt :: "int \<Rightarrow> parsed \<Rightarrow> py_exception + bool" where
  "aware_gt a (Aware b) = Inr (a > b)"
| "aware_gt a (Naive b) = Inl TypeError"

text \<open>\<^verbatim>\<open>a > b\<close> for an aware datetime \<open>b\<close>.\<close>

fun gt_aware :: "parsed \<Rightarrow> int \<Rightarrow> py_exception + bool" where
  "gt_aware (Aware a) b = Inr (a > b)"
| "gt_aware (Naive a) b = Inl TypeError"

text \<open>\<^verbatim>\<open>datetime.fromisoformat(s.replace('Z', '+00:00'))\<close>.\<close>

definition parse_timestamp :: "python_lib \<Rightarrow> string \<Rightarrow> py_exception + parsed" where
  "parse_timestamp L s =
     (case fromisoformat L (replace_Z s) of None \<Rightarrow> Inl ValueError | Some d \<Rightarrow> Inr d)"

subsection \<open>Stored records and the world\<close>

record whisper =
  w_id :: int
  w_content :: string
  w_topic :: "string option"
  w_is_sensitive :: json
  w_replies_count :: int
  w_created_at :: string

record reply =
  r_id :: int
  r_whisper_id :: int
  r_content :: string
  r_created_at :: string

datatype 'a json_file = Unreadable string | Holds "'a list"

text \<open>
  An attempt to write a file: it succeeds, or \<^verbatim>\<open>open(file_path, 'w')\<close> raises and the file
  is as before, or the dump raises after the file was truncated.
\<close>

datatype write_outcome = Written | OpenFailed string | DumpFailed string

datatype event =
    Printed string
  | Write_whispers "whisper list" write_outcome
  | Write_replies "reply list" write_outcome

record world =
  whispers_json :: "whisper json_file"
  replies_json :: "reply json_file"
  LAST_UPDATE_TIME :: int
  clock :: "nat \<Rightarrow> int"
  clock_reads :: nat
  disk :: "nat \<Rightarrow> write_outcome"
  disk_writes :: nat
  trace :: "event list"

text \<open>A path is what the code does with it: read the file, replace it, name it.\<close>

record 'a path =
  read_of :: "world \<Rightarrow> 'a json_file"
  write_to :: "'a json_file \<Rightarrow> world \<Rightarrow> world"
  attempt :: "'a list \<Rightarrow> write_outcome \<Rightarrow> event"

definition WHISPERS_FILE :: "whisper path" where
  "WHISPERS_FILE =
     \<lparr>read_of = whispers_json,
      write_to = (\<lambda>f w. w\<lparr>whispers_json := f\<rparr>),
      attempt = Write_whispers\<rparr>"

definition REPLIES_FILE :: "reply path" where
  "REPLIES_FILE =
     \<lparr>read_of = replies_json,
      write_to = (\<lambda>f w. w\<lparr>replies_json := f\<rparr>),
      attempt = Write_replies\<rparr>"

definition ALL_TOPICS :: "string list" where
  "ALL_TOPICS =
     [''confession'', ''life'', ''secrets'', ''advice'', ''love'',
      ''series-movies'', ''politically-incorrect'', ''paranormal'',
      ''health-fitness'', ''vent'', ''music'', ''fashion'',
      ''gaming'', ''otaku-stuff'', ''random'']"

definition print :: "string \<Rightarrow> world \<Rightarrow> world" where
  "print s w = w\<lparr>trace := trace w @ [Printed s]\<rparr>"

definition datetime_now :: "world \<Rightarrow> int \<times> world" where
  "datetime_now w = (clock w (clock_reads w), w\<lparr>clock_reads := Suc (clock_reads w)\<rparr>)"

subsection \<open>The store: load\_data and save\_data\<close>

definition load_data :: "'a path \<Rightarrow> world \<Rightarrow> 'a list \<times> world" where
  "load_data file_path w =
     (case read_of file_path w of
        Holds xs \<Rightarrow> (xs, w)
      | Unreadable e \<Rightarrow> ([], print (''load_data error: '' @ e) w))"

definition save_data :: "'a path \<Rightarrow> 'a list \<Rightarrow> world \<Rightarrow> bool \<times> world" where
  "save_data file_path data w =
     (let outcome = disk w (disk_writes w);
          w1 = w\<lparr>disk_writes := Suc (disk_writes w),
                 trace := trace w @ [attempt file_path data outcome]\<rparr>
      in case outcome of
           Written \<Rightarrow>
             (let w2 = write_to file_path (Holds data) w1;
                  (t, w3) = datetime_now w2
              in (True, w3\<lparr>LAST_UPDATE_TIME := t\<rparr>))
         | OpenFailed e \<Rightarrow> (False, print (''save_data error: '' @ e) w1)
         | DumpFailed e \<Rightarrow>
             (False, print (''save_data error: '' @ e)
                       (write_to file_path (Unreadable ''truncated'') w1)))"

subsection \<open>The retention sweep\<close>

text \<open>
  The loop of \<^verbatim>\<open>cleanup_old_whispers\<close> over the loaded whispers, with its two
  accumulators. A timestamp that does not parse, or parses to a naive datetime, raises.
\<close>

fun partition_whispers ::
  "python_lib \<Rightarrow> int \<Rightarrow> whisper list \<Rightarrow> whisper list \<times> int list
     \<Rightarrow> py_exception + (whisper list \<times> int list)" where
  "partition_whispers L cutoff_time [] acc = Inr acc"
| "partition_whispers L cutoff_time (w # ws) (filtered_whispers, deleted_ids) =
     (case parse_timestamp L (w_created_at w) of
        Inl e \<Rightarrow> Inl e
      | Inr d \<Rightarrow>
          (case gt_aware d cutoff_time of
             Inl e \<Rightarrow> Inl e
           | Inr later \<Rightarrow>
               if later
               then partition_whispers L cutoff_time ws (filtered_whispers @ [w], deleted_ids)
               else partition_whispers L cutoff_time ws (filtered_whispers, deleted_ids @ [w_id w])))"

definition cleanup_old_whispers :: "python_lib \<Rightarrow> world \<Rightarrow> bool \<times> world" where
  "cleanup_old_whispers L w =
     (let (whispers, w1) = load_data WHISPERS_FILE w;
          (now, w2) = datetime_now w1;
          cutoff_time = now - timedelta_hours 48
      in case partition_whispers L cutoff_time whispers ([], []) of
           Inl e \<Rightarrow> (False, print (''cleanup error: '' @ str_of e) w2)
         | Inr (filtered_whispers, deleted_ids) \<Rightarrow>
             if deleted_ids \<noteq> [] then
               (let (replies, w3) = load_data REPLIES_FILE w2;
                    filtered_replies = filter (\<lambda>r. r_whisper_id r \<notin> set deleted_ids) replies;
                    (saved_replies, w4) = save_data REPLIES_FILE filtered_replies w3;
                    (saved_whispers, w5) = save_data WHISPERS_FILE filtered_whispers w4
                in (True, w5))
             else (True, w2))"

subsection \<open>The request handlers\<close>

text \<open>
  A response is the JSON body the handler returns with its status code;
  \<open>Unhandled\<close> is an exception that leaves the handler (Flask answers 500).
\<close>

datatype response =
    Whispers_response "whisper list" string string
  | Updates_response bool string nat string
  | Whisper_response whisper
  | Reply_response reply
  | Error_response nat string
  | Unhandled py_exception

text \<open>\<^verbatim>\<open>w.get('topic', 'random')\<close>.\<close>

definition whisper_topic :: "whisper \<Rightarrow> string" where
  "whisper_topic w = (case w_topic w of None \<Rightarrow> ''random'' | Some t \<Rightarrow> t)"

text \<open>
  \<^verbatim>\<open>GET /api/whispers\<close>; \<open>topic_arg\<close> is the query parameter, \<open>None\<close> when it is
  omitted. Nothing in the body of the \<^verbatim>\<open>try\<close> raises on the records of the model.
\<close>

definition get_whispers :: "python_lib \<Rightarrow> string option \<Rightarrow> world \<Rightarrow> response \<times> world" where
  "get_whispers L topic_arg w =
     (let (cleaned, w1) = cleanup_old_whispers L w;
          topic = (case topic_arg of None \<Rightarrow> ''all'' | Some t \<Rightarrow> t);
          (whispers, w2) = load_data WHISPERS_FILE w1;
          (topic, whispers) =
            (if topic \<noteq> [] \<and> topic \<noteq> ''all'' then
               (let topic = (if topic \<notin> set ALL_TOPICS then ''all'' else topic)
                in (topic, filter (\<lambda>w. whisper_topic w = topic) whispers))
             else (topic, whispers))
      in (Whispers_response (sort_reverse w_created_at whispers)
            (isoformat L (LAST_UPDATE_TIME w2)) topic, w2))"

text \<open>
  \<^verbatim>\<open>GET /api/check-updates\<close>. The local \<^verbatim>\<open>current_count\<close> is \<open>None\<close> while it is not
  bound; reading it then raises UnboundLocalError, which the handler's \<^verbatim>\<open>except\<close> turns
  into a 500 response.
\<close>

definition check_updates ::
  "python_lib \<Rightarrow> string option \<Rightarrow> string option \<Rightarrow> world \<Rightarrow> response \<times> world" where
  "check_updates L last_client_update topic_arg w =
     (let client_topic = (case topic_arg of None \<Rightarrow> ''all'' | Some t \<Rightarrow> t);
          (whispers, w1) = load_data WHISPERS_FILE w;
          (client_topic, current_count) =
            (if client_topic \<noteq> [] \<and> client_topic \<noteq> ''all'' then
               if client_topic \<notin> set ALL_TOPICS then (''all'', None)
               else (client_topic,
                     Some (length (filter (\<lambda>w. whisper_topic w = client_topic) whispers)))
             else (client_topic, Some (length whispers)));
          data_changed =
            (case last_client_update of
               None \<Rightarrow> True
             | Some s \<Rightarrow>
                 if s = [] then True
                 else (case parse_timestamp L s of
                         Inl e \<Rightarrow> True
                       | Inr client_time \<Rightarrow>
                           (case aware_gt (LAST_UPDATE_TIME w1) client_time of
                              Inl e \<Rightarrow> True
                            | Inr changed \<Rightarrow> changed)))
      in case current_count of
           None \<Rightarrow> (Error_response 500 (str_of UnboundLocalError), w1)
         | Some n \<Rightarrow>
             (Updates_response data_changed (isoformat L (LAST_UPDATE_TIME w1)) n client_topic,
              w1))"

text \<open>\<^verbatim>\<open>len([r for r in replies if r['whisper_id'] == id])\<close>.\<close>

definition count_replies :: "int \<Rightarrow> reply list \<Rightarrow> int" where
  "count_replies id' replies = int (length (filter (\<lambda>r. r_whisper_id r = id') replies))"

text \<open>\<^verbatim>\<open>GET /api/whispers/<id>\<close>.\<close>

definition get_whisper :: "int \<Rightarrow> world \<Rightarrow> response \<times> world" where
  "get_whisper id' w =
     (let (whispers, w1) = load_data WHISPERS_FILE w
      in case find (\<lambda>x. w_id x = id') whispers of
           None \<Rightarrow> (Error_response 404 ''Whisper not found'', w1)
         | Some whisper \<Rightarrow>
             (let (replies, w2) = load_data REPLIES_FILE w1
              in (Whisper_response (whisper\<lparr>w_replies_count := count_replies id' replies\<rparr>),
                  w2)))"

text \<open>\<^verbatim>\<open>topic = data.get('topic', 'random')\<close>, replaced by \<^verbatim>\<open>'random'\<close> when not in ALL\_TOPICS.\<close>

fun valid_topic :: "json \<Rightarrow> string" where
  "valid_topic (JStr s) = (if s \<notin> set ALL_TOPICS then ''random'' else s)"
| "valid_topic _ = ''random''"

text \<open>\<^verbatim>\<open>POST /api/whispers\<close> with the parsed body \<open>data\<close>.\<close>

definition create_whisper :: "python_lib \<Rightarrow> json \<Rightarrow> world \<Rightarrow> response \<times> world" where
  "create_whisper L data w =
     (if \<not> truthy data then (Error_response 400 ''Content required'', w)
      else case dict_get data ''content'' JNull of
        Inl e \<Rightarrow> (Unhandled e, w)
      | Inr content \<Rightarrow>
          if \<not> truthy content then (Error_response 400 ''Content required'', w)
          else
            (let (whispers, w1) = load_data WHISPERS_FILE w;
                 new_id = max_default (map w_id whispers) 0 + 1
             in case dict_get data ''topic'' (JStr ''random'') of
                  Inl e \<Rightarrow> (Unhandled e, w1)
                | Inr t \<Rightarrow>
                    (case json_strip L content of
                       Inl e \<Rightarrow> (Unhandled e, w1)
                     | Inr stripped \<Rightarrow>
                         (case dict_get data ''is_sensitive'' (JBool False) of
                            Inl e \<Rightarrow> (Unhandled e, w1)
                          | Inr is_sensitive \<Rightarrow>
                              (let (now, w2) = datetime_now w1;
                                   whisper =
                                     \<lparr>w_id = new_id, w_content = stripped,
                                      w_topic = Some (valid_topic t),
                                      w_is_sensitive = is_sensitive,
                                      w_replies_count = 0,
                                      w_created_at = isoformat L now\<rparr>;
                                   (saved, w3) = save_data WHISPERS_FILE (whispers @ [whisper]) w2
                               in if saved then (Whisper_response whisper, w3)
                                  else (Error_response 500 ''Save failed'', w3))))))"

text \<open>
  \<^verbatim>\<open>whisper['replies_count'] = n\<close> for the whisper that \<^verbatim>\<open>next(...)\<close> found: it is the
  first element of the list with that id, and the assignment changes it in the list.
\<close>

fun set_replies_count :: "int \<Rightarrow> int \<Rightarrow> whisper list \<Rightarrow> whisper list" where
  "set_replies_count id' n [] = []"
| "set_replies_count id' n (x # xs) =
     (if w_id x = id' then x\<lparr>w_replies_count := n\<rparr> # xs
      else x # set_replies_count id' n xs)"

text \<open>\<^verbatim>\<open>POST /api/whispers/<id>/replies\<close> with the parsed body \<open>data\<close>.\<close>

definition create_reply :: "python_lib \<Rightarrow> int \<Rightarrow> json \<Rightarrow> world \<Rightarrow> response \<times> world" where
  "create_reply L id' data w =
     (if \<not> truthy data then (Error_response 400 ''Content required'', w)
      else case dict_get data ''content'' JNull of
        Inl e \<Rightarrow> (Unhandled e, w)
      | Inr content \<Rightarrow>
          if \<not> truthy content then (Error_response 400 ''Content required'', w)
          else
            (let (whispers, w1) = load_data WHISPERS_FILE w
             in case find (\<lambda>x. w_id x = id') whispers of
                  None \<Rightarrow> (Error_response 404 ''Whisper not found'', w1)
                | Some whisper \<Rightarrow>
                    (let (replies, w2) = load_data REPLIES_FILE w1;
                         new_id = max_default (map r_id replies) 0 + 1
                     in case json_strip L content of
                          Inl e \<Rightarrow> (Unhandled e, w2)
                        | Inr stripped \<Rightarrow>
                            (let (now, w3) = datetime_now w2;
                                 reply =
                                   \<lparr>r_id = new_id, r_whisper_id = id',
                                    r_content = stripped,
                                    r_created_at = isoformat L now\<rparr>;
                                 replies = replies @ [reply];
                                 (saved, w4) = save_data REPLIES_FILE replies w3
                             in if saved then
                                  (let whispers =
                                         set_replies_count id' (count_replies id' replies) whispers;
                                       (saved_whispers, w5) = save_data WHISPERS_FILE whispers w4
                                   in (Reply_response reply, w5))
                                else (Error_response 500 ''Save failed'', w4)))))"

subsection \<open>Notions the statements use\<close>

text \<open>
  The instant a stored whisper's \<^verbatim>\<open>created_at\<close> denotes, when it is the text of an aware
  datetime (as every timestamp the program writes is).
\<close>

definition instant_of :: "python_lib \<Rightarrow> whisper \<Rightarrow> int option" where
  "instant_of L p =
     (case fromisoformat L (replace_Z (w_created_at p)) of
        Some (Aware t) \<Rightarrow> Some t
      | Some (Naive t) \<Rightarrow> None
      | None \<Rightarrow> None)"

definition created_after :: "python_lib \<Rightarrow> int \<Rightarrow> whisper \<Rightarrow> bool" where
  "created_after L cutoff p = (case instant_of L p of Some t \<Rightarrow> cutoff < t | None \<Rightarrow> False)"

definition created_at_or_before :: "python_lib \<Rightarrow> int \<Rightarrow> whisper \<Rightarrow> bool" where
  "created_at_or_before L cutoff p =
     (case instant_of L p of Some t \<Rightarrow> t \<le> cutoff | None \<Rightarrow> False)"

text \<open>The attempts to write a file that a trace records, in their order.\<close>

fun is_write :: "event \<Rightarrow> bool" where
  "is_write (Printed s) = False"
| "is_write (Write_whispers xs out) = True"
| "is_write (Write_replies xs out) = True"

definition writes :: "event list \<Rightarrow> event list" where
  "writes evs = filter is_write evs"

text \<open>
  The topics \<^verbatim>\<open>check_updates\<close> and \<^verbatim>\<open>get_whispers\<close> take without replacing them: none,
  the empty one, \<^verbatim>\<open>'all'\<close> and the members of ALL\_TOPICS.
\<close>

definition handled_topic :: "string option \<Rightarrow> bool" where
  "handled_topic topic_arg =
     (case topic_arg of None \<Rightarrow> True | Some t \<Rightarrow> t = [] \<or> t = ''all'' \<or> t \<in> set ALL_TOPICS)"

subsection \<open>Concrete inputs for the examples\<close>

text \<open>
  What \<^verbatim>\<open>str.strip\<close> computes on a string of ASCII characters: the whitespace among
  them is removed at both ends. The examples submit ASCII content only.
\<close>

definition ascii_isspace :: "char \<Rightarrow> bool" where
  "ascii_isspace c = (c \<in> set [CHR 0x09, CHR 0x0A, CHR 0x0B, CHR 0x0C, CHR 0x0D,
                                CHR 0x1C, CHR 0x1D, CHR 0x1E, CHR 0x1F, CHR 0x20])"

definition ascii_strip :: "string \<Rightarrow> string" where
  "ascii_strip s = rev (dropWhile ascii_isspace (rev (dropWhile ascii_isspace s)))"

text \<open>
  The library at the inputs the examples use: ASCII strings to strip, and the first
  instants of 2024-01-01 and of 2024-01-04 (UTC) and one microsecond after the latter.
\<close>

definition example_lib :: python_lib where
  "example_lib =
     \<lparr>isoformat = (\<lambda>t.
        if t = 1704067200000000 then ''2024-01-01T00:00:00+00:00''
        else if t = 1704326400000000 then ''2024-01-04T00:00:00+00:00''
        else if t = 1704326400000001 then ''2024-01-04T00:00:00.000001+00:00''
        else ''other''),
      fromisoformat = (\<lambda>s.
        if s = ''2024-01-01T00:00:00+00:00'' then Some (Aware 1704067200000000)
        else if s = ''2024-01-04T00:00:00+00:00'' then Some (Aware 1704326400000000)
        else if s = ''2024-01-04T00:00:00.000001+00:00'' then Some (Aware 1704326400000001)
        else if s = ''2024-01-04T00:00:00'' then Some (Naive 1704326400000000)
        else None),
      str_strip = ascii_strip\<rparr>"

text \<open>A world with the given files, a clock that stands at \<open>now\<close> and a disk that works.\<close>

definition example_world :: "whisper json_file \<Rightarrow> reply json_file \<Rightarrow> int \<Rightarrow> world" where
  "example_world ws rs now =
     \<lparr>whispers_json = ws, replies_json = rs, LAST_UPDATE_TIME = 1704067200000000,
      clock = (\<lambda>n. now), clock_reads = 0,
      disk = (\<lambda>n. Written), disk_writes = 0, trace = []\<rparr>"

definition music_whisper :: whisper where
  "music_whisper =
     \<lparr>w_id = 1, w_content = ''hello'', w_topic = Some ''music'',
      w_is_sensitive = JBool False, w_replies_count = 0,
      w_created_at = ''2024-01-04T00:00:00+00:00''\<rparr>"

definition old_whisper :: whisper where
  "old_whisper =
     \<lparr>w_id = 2, w_content = ''bye'', w_topic = Some ''vent'',
      w_is_sensitive = JBool False, w_replies_count = 1,
      w_created_at = ''2024-01-01T00:00:00+00:00''\<rparr>"

definition old_reply :: reply where
  "old_reply =
     \<lparr>r_id = 1, r_whisper_id = 2, r_content = ''why'',
      r_created_at = ''2024-01-01T00:00:00+00:00''\<rparr>"

section \<open>Basic facts\<close>

lemma load_whispers:
  "load_data WHISPERS_FILE w =
     (case whispers_json w of Holds xs \<Rightarrow> (xs, w)
      | Unreadable e \<Rightarrow> ([], print (''load_data error: '' @ e) w))"
  by (simp add: load_data_def WHISPERS_FILE_def)

lemma load_replies:
  "load_data REPLIES_FILE w =
     (case replies_json w of Holds xs \<Rightarrow> (xs, w)
      | Unreadable e \<Rightarrow> ([], print (''load_data error: '' @ e) w))"
  by (simp add: load_data_def REPLIES_FILE_def)

lemma print_fields [simp]:
  "whispers_json (print s w) = whispers_json w"
  "replies_json (print s w) = replies_json w"
  "LAST_UPDATE_TIME (print s w) = LAST_UPDATE_TIME w"
  "clock (print s w) = clock w"
  "clock_reads (print s w) = clock_reads w"
  "disk (print s w) = disk w"
  "disk_writes (print s w) = disk_writes w"
  "trace (print s w) = trace w @ [Printed s]"
  by (simp_all add: print_def)

lemma save_whispers:
  "save_data WHISPERS_FILE data w =
     (case disk w (disk_writes w) of
        Written \<Rightarrow>
          (True, w\<lparr>whispers_json := Holds data,
                   LAST_UPDATE_TIME := clock w (clock_reads w),
                   clock_reads := Suc (clock_reads w),
                   disk_writes := Suc (disk_writes w),
                   trace := trace w @ [Write_whispers data Written]\<rparr>)
      | OpenFailed e \<Rightarrow>
          (False, w\<lparr>disk_writes := Suc (disk_writes w),
                    trace := trace w @ [Write_whispers data (OpenFailed e),
                                        Printed (''save_data error: '' @ e)]\<rparr>)
      | DumpFailed e \<Rightarrow>
          (False, w\<lparr>whispers_json := Unreadable ''truncated'',
                    disk_writes := Suc (disk_writes w),
                    trace := trace w @ [Write_whispers data (DumpFailed e),
                                        Printed (''save_data error: '' @ e)]\<rparr>))"
  by (simp add: save_data_def WHISPERS_FILE_def datetime_now_def print_def Let_def
           split: write_outcome.split)

lemma save_replies:
  "save_data REPLIES_FILE data w =
     (case disk w (disk_writes w) of
        Written \<Rightarrow>
          (True, w\<lparr>replies_json := Holds data,
                   LAST_UPDATE_TIME := clock w (clock_reads w),
                   clock_reads := Suc (clock_reads w),
                   disk_writes := Suc (disk_writes w),
                   trace := trace w @ [Write_replies data Written]\<rparr>)
      | OpenFailed e \<Rightarrow>
          (False, w\<lparr>disk_writes := Suc (disk_writes w),
                    trace := trace w @ [Write_replies data (OpenFailed e),
                                        Printed (''save_data error: '' @ e)]\<rparr>)
      | DumpFailed e \<Rightarrow>
          (False, w\<lparr>replies_json := Unreadable ''truncated'',
                    disk_writes := Suc (disk_writes w),
                    trace := trace w @ [Write_replies data (DumpFailed e),
                                        Printed (''save_data error: '' @ e)]\<rparr>))"
  by (simp add: save_data_def REPLIES_FILE_def datetime_now_def print_def Let_def
           split: write_outcome.split)

lemma max_default_Max: "xs \<noteq> [] \<Longrightarrow> max_default xs d = Max (set xs)"
  by (cases xs) (simp_all add: Max.set_eq_fold [symmetric])

lemma max_default_upper: "x \<in> set xs \<Longrightarrow> x \<le> max_default xs d"
  using max_default_Max [of xs d] by (cases "xs = []") auto

lemma fst_load_whispers:
  "fst (load_data WHISPERS_FILE w) = (case whispers_json w of Holds xs \<Rightarrow> xs | Unreadable e \<Rightarrow> [])"
  by (simp add: load_whispers split: json_file.split)

lemma fst_load_replies:
  "fst (load_data REPLIES_FILE w) = (case replies_json w of Holds xs \<Rightarrow> xs | Unreadable e \<Rightarrow> [])"
  by (simp add: load_replies split: json_file.split)

lemmas example_defs =
  example_world_def example_lib_def music_whisper_def old_whisper_def old_reply_def
  ALL_TOPICS_def ascii_strip_def ascii_isspace_def replace_Z_def timedelta_hours_def Let_def

lemmas run_defs =
  create_whisper_def create_reply_def get_whisper_def get_whispers_def check_updates_def
  cleanup_old_whispers_def load_whispers load_replies save_whispers save_replies
  datetime_now_def count_replies_def whisper_topic_def parse_timestamp_def
  sort_reverse_def print_def

lemma example_instants:
  "instant_of example_lib music_whisper = Some 1704326400000000"
  "instant_of example_lib old_whisper = Some 1704067200000000"
  by (simp_all add: instant_of_def example_defs)

subsection \<open>What a successful creation did\<close>

lemma create_whisper_success:
  assumes "create_whisper L data w = (Whisper_response p, w')"
  shows "\<exists>s t sens.
     dict_get data ''content'' JNull = Inr (JStr s) \<and> s \<noteq> [] \<and>
     dict_get data ''topic'' (JStr ''random'') = Inr t \<and>
     dict_get data ''is_sensitive'' (JBool False) = Inr sens \<and>
     disk w (disk_writes w) = Written \<and>
     p = \<lparr>w_id = max_default (map w_id (fst (load_data WHISPERS_FILE w))) 0 + 1,
          w_content = str_strip L s, w_topic = Some (valid_topic t), w_is_sensitive = sens,
          w_replies_count = 0, w_created_at = isoformat L (clock w (clock_reads w))\<rparr> \<and>
     whispers_json w' = Holds (fst (load_data WHISPERS_FILE w) @ [p]) \<and>
     replies_json w' = replies_json w"
  using assms
  by (cases data)
     (auto simp: create_whisper_def load_whispers save_whispers datetime_now_def Let_def
           split: if_splits sum.splits prod.splits json_file.splits write_outcome.splits
           elim!: json_strip.elims)

lemma create_reply_success:
  assumes "create_reply L id' data w = (Reply_response r, w')"
  shows "\<exists>s q.
     dict_get data ''content'' JNull = Inr (JStr s) \<and> s \<noteq> [] \<and>
     find (\<lambda>x. w_id x = id') (fst (load_data WHISPERS_FILE w)) = Some q \<and>
     disk w (disk_writes w) = Written \<and>
     r = \<lparr>r_id = max_default (map r_id (fst (load_data REPLIES_FILE w))) 0 + 1,
          r_whisper_id = id', r_content = str_strip L s,
          r_created_at = isoformat L (clock w (clock_reads w))\<rparr> \<and>
     replies_json w' = Holds (fst (load_data REPLIES_FILE w) @ [r])"
  using assms
  by (cases data)
     (auto simp: create_reply_def load_whispers load_replies save_whispers save_replies
                 datetime_now_def Let_def
           split: if_splits sum.splits prod.splits json_file.splits write_outcome.splits
                  option.splits
           elim!: json_strip.elims)

lemma create_whisper_ignores_replies:
  "fst (create_whisper L data (w\<lparr>replies_json := rs\<rparr>)) = fst (create_whisper L data w)"
  by (cases data)
     (auto simp: create_whisper_def load_whispers save_whispers datetime_now_def Let_def print_def
           split: if_splits sum.splits prod.splits json_file.splits write_outcome.splits)

subsection \<open>Looking a whisper up\<close>

lemma get_whisper_found:
  "get_whisper id' w = (Whisper_response p, w') \<Longrightarrow>
     \<exists>q. find (\<lambda>x. w_id x = id') (fst (load_data WHISPERS_FILE w)) = Some q \<and>
         p = q\<lparr>w_replies_count := count_replies id' (fst (load_data REPLIES_FILE w))\<rparr>"
  by (auto simp: get_whisper_def load_whispers load_replies split: json_file.splits option.splits prod.splits)

lemma get_whisper_eq:
  "fst (get_whisper id' w) =
     (case find (\<lambda>x. w_id x = id') (fst (load_data WHISPERS_FILE w)) of
        None \<Rightarrow> Error_response 404 ''Whisper not found''
      | Some q \<Rightarrow>
          Whisper_response
            (q\<lparr>w_replies_count := count_replies id' (fst (load_data REPLIES_FILE w))\<rparr>))"
  by (auto simp: get_whisper_def load_whispers load_replies split: json_file.splits option.splits prod.splits)

lemma find_map_count:
  "find (\<lambda>x. w_id x = i) (map (w_replies_count_update c) ws)
     = map_option (w_replies_count_update c) (find (\<lambda>x. w_id x = i) ws)"
  by (induction ws) auto

lemma find_snoc:
  "find P (xs @ [y]) = (case find P xs of None \<Rightarrow> (if P y then Some y else None) | Some x \<Rightarrow> Some x)"
  by (induction xs) auto

lemma find_fresh_id:
  "find (\<lambda>x. w_id x = max_default (map w_id ws) 0 + 1) (ws @ [p]) =
     (if w_id p = max_default (map w_id ws) 0 + 1 then Some p else None)"
proof -
  have "\<forall>x\<in>set ws. w_id x \<noteq> max_default (map w_id ws) 0 + 1"
    using max_default_upper [of _ "map w_id ws" 0] by fastforce
  then have "find (\<lambda>x. w_id x = max_default (map w_id ws) 0 + 1) ws = None"
    by (simp add: find_None_iff)
  then show ?thesis by (simp add: find_snoc)
qed

lemma find_set_replies_count:
  "find (\<lambda>x. w_id x = i) (set_replies_count i n ws)
     = map_option (\<lambda>x. x\<lparr>w_replies_count := n\<rparr>) (find (\<lambda>x. w_id x = i) ws)"
  by (induction ws) auto

lemma count_replies_snoc:
  "count_replies i (rs @ [r]) = count_replies i rs + (if r_whisper_id r = i then 1 else 0)"
  by (simp add: count_replies_def)

subsection \<open>What loading and saving leave alone\<close>

lemma writes_append [simp]: "writes (xs @ ys) = writes xs @ writes ys"
  by (simp add: writes_def)

lemma writes_simps [simp]:
  "writes [] = []"
  "writes (Printed s # evs) = writes evs"
  "writes (Write_whispers xs out # evs) = Write_whispers xs out # writes evs"
  "writes (Write_replies ys out # evs) = Write_replies ys out # writes evs"
  by (simp_all add: writes_def)

lemma load_data_frame [simp]:
  "whispers_json (snd (load_data file_path w)) = whispers_json w"
  "replies_json (snd (load_data file_path w)) = replies_json w"
  "LAST_UPDATE_TIME (snd (load_data file_path w)) = LAST_UPDATE_TIME w"
  "clock (snd (load_data file_path w)) = clock w"
  "clock_reads (snd (load_data file_path w)) = clock_reads w"
  "disk (snd (load_data file_path w)) = disk w"
  "disk_writes (snd (load_data file_path w)) = disk_writes w"
  "writes (trace (snd (load_data file_path w))) = writes (trace w)"
  by (simp_all add: load_data_def split: json_file.split)

lemma save_replies_frame:
  "disk (snd (save_data REPLIES_FILE data w)) = disk w"
  "disk_writes (snd (save_data REPLIES_FILE data w)) = Suc (disk_writes w)"
  "whispers_json (snd (save_data REPLIES_FILE data w)) = whispers_json w"
  "writes (trace (snd (save_data REPLIES_FILE data w)))
     = writes (trace w) @ [Write_replies data (disk w (disk_writes w))]"
  "disk w (disk_writes w) = Written \<Longrightarrow>
     replies_json (snd (save_data REPLIES_FILE data w)) = Holds data"
  by (simp_all add: save_replies split: write_outcome.split)

lemma save_whispers_frame:
  "disk (snd (save_data WHISPERS_FILE data w)) = disk w"
  "disk_writes (snd (save_data WHISPERS_FILE data w)) = Suc (disk_writes w)"
  "replies_json (snd (save_data WHISPERS_FILE data w)) = replies_json w"
  "writes (trace (snd (save_data WHISPERS_FILE data w)))
     = writes (trace w) @ [Write_whispers data (disk w (disk_writes w))]"
  "disk w (disk_writes w) = Written \<Longrightarrow>
     whispers_json (snd (save_data WHISPERS_FILE data w)) = Holds data"
  by (simp_all add: save_whispers split: write_outcome.split)

subsection \<open>The sweep, step by step\<close>

lemma later_than_cutoff:
  "instant_of L p = Some t \<Longrightarrow>
     parse_timestamp L (w_created_at p) = Inr (Aware t) \<and>
     created_after L c p = (c < t) \<and> created_at_or_before L c p = (t \<le> c)"
  by (auto simp: instant_of_def parse_timestamp_def created_after_def created_at_or_before_def
           split: option.splits parsed.splits)

lemma partition_whispers_eq:
  "list_all (\<lambda>p. instant_of L p \<noteq> None) ws \<Longrightarrow>
     partition_whispers L c ws (f, d) =
       Inr (f @ filter (created_after L c) ws,
            d @ map w_id (filter (created_at_or_before L c) ws))"
proof (induction ws arbitrary: f d)
  case Nil
  then show ?case by simp
next
  case (Cons p ws)
  then obtain t where t: "instant_of L p = Some t" by auto
  from Cons have rest: "list_all (\<lambda>p. instant_of L p \<noteq> None) ws" by simp
  show ?case
    using later_than_cutoff [OF t, of c] Cons.IH [OF rest]
    by (cases "c < t") auto
qed

lemma cleanup_nothing_expired:
  assumes "list_all (\<lambda>p. instant_of L p \<noteq> None) (fst (load_data WHISPERS_FILE w))"
    and "filter (created_at_or_before L (clock w (clock_reads w) - timedelta_hours 48))
           (fst (load_data WHISPERS_FILE w)) = []"
  shows "cleanup_old_whispers L w =
           (True, (snd (load_data WHISPERS_FILE w))\<lparr>clock_reads := Suc (clock_reads w)\<rparr>)"
  using assms partition_whispers_eq [OF assms(1), of "clock w (clock_reads w) - timedelta_hours 48" "[]" "[]"]
  by (auto simp: cleanup_old_whispers_def load_whispers datetime_now_def Let_def
      split: json_file.splits prod.splits)

lemma cleanup_expired:
  assumes "list_all (\<lambda>p. instant_of L p \<noteq> None) (fst (load_data WHISPERS_FILE w))"
    and "filter (created_at_or_before L (clock w (clock_reads w) - timedelta_hours 48))
           (fst (load_data WHISPERS_FILE w)) \<noteq> []"
  shows "cleanup_old_whispers L w =
     (let cutoff = clock w (clock_reads w) - timedelta_hours 48;
          keep = filter (created_after L cutoff) (fst (load_data WHISPERS_FILE w));
          ids = map w_id (filter (created_at_or_before L cutoff) (fst (load_data WHISPERS_FILE w)));
          w2 = (snd (load_data WHISPERS_FILE w))\<lparr>clock_reads := Suc (clock_reads w)\<rparr>;
          w3 = snd (load_data REPLIES_FILE w2);
          filtered = filter (\<lambda>r. r_whisper_id r \<notin> set ids) (fst (load_data REPLIES_FILE w))
      in (True, snd (save_data WHISPERS_FILE keep (snd (save_data REPLIES_FILE filtered w3)))))"
proof -
  have same: "fst (load_data REPLIES_FILE
                (snd (load_data WHISPERS_FILE w)\<lparr>clock_reads := Suc (clock_reads w)\<rparr>))
              = fst (load_data REPLIES_FILE w)"
    by (simp add: fst_load_replies)
  show ?thesis
    using assms(2)
      partition_whispers_eq [OF assms(1), of "clock w (clock_reads w) - timedelta_hours 48" "[]" "[]"]
    by (simp add: cleanup_old_whispers_def datetime_now_def Let_def case_prod_unfold same)
qed

subsection \<open>Replies, step by step\<close>

lemma create_reply_not_found:
  assumes "dict_get data ''content'' JNull = Inr c" and "truthy c"
    and "find (\<lambda>x. w_id x = id') (fst (load_data WHISPERS_FILE w)) = None"
  shows "create_reply L id' data w =
           (Error_response 404 ''Whisper not found'', snd (load_data WHISPERS_FILE w))"
proof -
  from assms(1,2) have "truthy data" by (cases data) (auto split: option.splits)
  with assms show ?thesis
    by (simp add: create_reply_def case_prod_unfold)
qed

lemma create_reply_saved:
  assumes "dict_get data ''content'' JNull = Inr (JStr s)" and "s \<noteq> []"
    and "find (\<lambda>x. w_id x = id') (fst (load_data WHISPERS_FILE w)) = Some q"
    and "disk w (disk_writes w) = Written"
  shows "\<exists>r. fst (create_reply L id' data w) = Reply_response r \<and> r_whisper_id r = id' \<and>
           replies_json (snd (create_reply L id' data w))
             = Holds (fst (load_data REPLIES_FILE w) @ [r]) \<and>
           whispers_json (snd (create_reply L id' data w)) =
             (case disk w (Suc (disk_writes w)) of
                Written \<Rightarrow> Holds (set_replies_count id'
                    (count_replies id' (fst (load_data REPLIES_FILE w) @ [r]))
                    (fst (load_data WHISPERS_FILE w)))
              | OpenFailed e \<Rightarrow> whispers_json w
              | DumpFailed e \<Rightarrow> Unreadable ''truncated'')"
proof -
  from assms(1,2) have "truthy data" by (cases data) (auto split: option.splits)
  with assms show ?thesis
    by (simp add: create_reply_def case_prod_unfold Let_def datetime_now_def save_replies
          save_whispers fst_load_replies split: write_outcome.split)
qed

subsection \<open>Stored timestamps are the program's own\<close>

text \<open>
  Where \<open>fromisoformat\<close> reads back what \<open>isoformat\<close> wrote, as Python's does for aware
  datetimes, every whisper the program creates carries a timestamp that denotes an
  instant, and creating a whisper keeps this true of the whole collection.
\<close>

lemma created_whisper_has_instant:
  assumes "\<And>t. fromisoformat L (replace_Z (isoformat L t)) = Some (Aware t)"
    and "create_whisper L data w = (Whisper_response p, w')"
  shows "instant_of L p = Some (clock w (clock_reads w))"
  using create_whisper_success [OF assms(2)] assms(1)
  by (auto simp: instant_of_def)

lemma create_whisper_keeps_instants:
  assumes "\<And>t. fromisoformat L (replace_Z (isoformat L t)) = Some (Aware t)"
    and "list_all (\<lambda>p. instant_of L p \<noteq> None) (fst (load_data WHISPERS_FILE w))"
  shows "list_all (\<lambda>p. instant_of L p \<noteq> None)
           (fst (load_data WHISPERS_FILE (snd (create_whisper L data w))))"
proof (cases "\<exists>p. fst (create_whisper L data w) = Whisper_response p")
  case True
  then obtain p where p: "create_whisper L data w = (Whisper_response p, snd (create_whisper L data w))"
    by (metis prod.collapse)
  from create_whisper_success [OF p] created_whisper_has_instant [OF assms(1) p] assms(2)
  show ?thesis by (auto simp: fst_load_whispers [of "snd (create_whisper L data w)"])
next
  case False
  have "whispers_json (snd (create_whisper L data w)) = whispers_json w
        \<or> (\<exists>e. whispers_json (snd (create_whisper L data w)) = Unreadable e)"
    using False
    by (cases data)
       (auto simp: create_whisper_def case_prod_unfold Let_def datetime_now_def save_whispers
             split: sum.splits write_outcome.splits if_splits)
  then show ?thesis using assms(2)
    by (auto simp: fst_load_whispers [of "snd (create_whisper L data w)"] fst_load_whispers [of w])
qed

section \<open>The store\<close>

text \<open>
  Claim C9. Whenever the file behind a collection cannot be read or parsed,
  \<open>load_data\<close> hands the caller the empty list and prints one line with the error; it
  changes neither file nor the shared timestamp. Its result has no exceptional value:
  the \<^verbatim>\<open>except Exception\<close> of the source catches every failure of the read.
\<close>

theorem load_data_failure_is_empty:
  "read_of file_path w = Unreadable e \<Longrightarrow>
     fst (load_data file_path w) = [] \<and>
     trace (snd (load_data file_path w)) = trace w @ [Printed (''load_data error: '' @ e)] \<and>
     whispers_json (snd (load_data file_path w)) = whispers_json w \<and>
     replies_json (snd (load_data file_path w)) = replies_json w \<and>
     LAST_UPDATE_TIME (snd (load_data file_path w)) = LAST_UPDATE_TIME w"
  by (simp add: load_data_def)

theorem load_data_failure_is_empty_witness:
  "read_of WHISPERS_FILE (example_world (Unreadable ''Expecting value'') (Holds [old_reply]) 0)
     = Unreadable ''Expecting value'' \<and>
   fst (load_data WHISPERS_FILE
          (example_world (Unreadable ''Expecting value'') (Holds [old_reply]) 0)) = [] \<and>
   trace (snd (load_data WHISPERS_FILE
          (example_world (Unreadable ''Expecting value'') (Holds [old_reply]) 0)))
     = [Printed ''load_data error: Expecting value'']"
  using load_data_failure_is_empty
    [of WHISPERS_FILE "example_world (Unreadable ''Expecting value'') (Holds [old_reply]) 0"
        "''Expecting value''"]
  by (simp add: WHISPERS_FILE_def example_world_def)

section \<open>Fetching one whisper\<close>

text \<open>
  Claim C10. A successful single-post fetch returns the post with \<^verbatim>\<open>replies_count\<close> equal
  to the number of stored replies whose \<^verbatim>\<open>whisper_id\<close> is the requested id. The count
  cached on the stored record plays no part: whatever counts the stored records carry,
  the response is the same.
\<close>

theorem get_whisper_fresh_count:
  "get_whisper id' w = (Whisper_response p, w') \<Longrightarrow>
     w_replies_count p
       = int (length (filter (\<lambda>r. r_whisper_id r = id') (fst (load_data REPLIES_FILE w)))) \<and>
     (\<forall>ws c. whispers_json w = Holds ws \<longrightarrow>
        fst (get_whisper id' (w\<lparr>whispers_json := Holds (map (w_replies_count_update c) ws)\<rparr>))
          = Whisper_response p)"
  apply (rule conjI)
   apply (drule get_whisper_found)
   apply (auto simp: count_replies_def)[1]
  apply (auto simp: get_whisper_def load_whispers load_replies find_map_count split: json_file.splits option.splits prod.splits)
  done

theorem get_whisper_fresh_count_witness:
  "get_whisper 2 (example_world (Holds [old_whisper]) (Holds [old_reply, old_reply\<lparr>r_id := 2\<rparr>]) 0)
     = (Whisper_response (old_whisper\<lparr>w_replies_count := 2\<rparr>),
        example_world (Holds [old_whisper]) (Holds [old_reply, old_reply\<lparr>r_id := 2\<rparr>]) 0) \<and>
   w_replies_count old_whisper = 1 \<and>
   fst (get_whisper 2
         (example_world (Holds [old_whisper\<lparr>w_replies_count := 99\<rparr>])
            (Holds [old_reply, old_reply\<lparr>r_id := 2\<rparr>]) 0))
     = Whisper_response (old_whisper\<lparr>w_replies_count := 2\<rparr>)"
proof -
  let ?W = "example_world (Holds [old_whisper]) (Holds [old_reply, old_reply\<lparr>r_id := 2\<rparr>]) 0"
  have h: "get_whisper 2 ?W = (Whisper_response (old_whisper\<lparr>w_replies_count := 2\<rparr>), ?W)"
    by (simp add: get_whisper_def load_whispers load_replies count_replies_def example_defs)
  have "whispers_json ?W = Holds [old_whisper]"
    by (simp add: example_world_def)
  with get_whisper_fresh_count [OF h] have
    "fst (get_whisper 2 (?W\<lparr>whispers_json :=
        Holds (map (w_replies_count_update (\<lambda>_. 99)) [old_whisper])\<rparr>))
      = Whisper_response (old_whisper\<lparr>w_replies_count := 2\<rparr>)"
    by blast
  then show ?thesis using h by (simp add: example_defs)
qed

section \<open>Creating whispers and replies\<close>

text \<open>
  Claim C7. The id of a created whisper is one more than the greatest id among the loaded
  whispers, or 1 when there are none, and the whisper is appended to that collection; the
  replies file has no influence on it. The id of a created reply is one more than the
  greatest id among the loaded replies, or 1 when there are none, and the reply is appended
  to that collection; whatever the whispers file holds, a reply that is created gets the
  same id.
\<close>

theorem new_id_is_max_plus_one:
  "(create_whisper L data w = (Whisper_response p, w') \<longrightarrow>
      w_id p = (if fst (load_data WHISPERS_FILE w) = [] then 1
                else Max (set (map w_id (fst (load_data WHISPERS_FILE w)))) + 1) \<and>
      whispers_json w' = Holds (fst (load_data WHISPERS_FILE w) @ [p]) \<and>
      (\<forall>rs. fst (create_whisper L data (w\<lparr>replies_json := rs\<rparr>)) = Whisper_response p)) \<and>
   (create_reply L id' data w = (Reply_response r, w') \<longrightarrow>
      r_id r = (if fst (load_data REPLIES_FILE w) = [] then 1
                else Max (set (map r_id (fst (load_data REPLIES_FILE w)))) + 1) \<and>
      replies_json w' = Holds (fst (load_data REPLIES_FILE w) @ [r]) \<and>
      (\<forall>ws r2 w2. create_reply L id' data (w\<lparr>whispers_json := ws\<rparr>) = (Reply_response r2, w2)
          \<longrightarrow> r2 = r))"
proof (intro conjI impI)
  assume a: "create_whisper L data w = (Whisper_response p, w')"
  from create_whisper_success [OF a]
  have pid: "w_id p = max_default (map w_id (fst (load_data WHISPERS_FILE w))) 0 + 1"
    and stored: "whispers_json w' = Holds (fst (load_data WHISPERS_FILE w) @ [p])"
    by auto
  show "w_id p = (if fst (load_data WHISPERS_FILE w) = [] then 1
                else Max (set (map w_id (fst (load_data WHISPERS_FILE w)))) + 1)"
    using pid max_default_Max [of "map w_id (fst (load_data WHISPERS_FILE w))" 0] by simp
  show "whispers_json w' = Holds (fst (load_data WHISPERS_FILE w) @ [p])" by (rule stored)
  show "\<forall>rs. fst (create_whisper L data (w\<lparr>replies_json := rs\<rparr>)) = Whisper_response p"
    using a by (simp add: create_whisper_ignores_replies)
next
  assume a: "create_reply L id' data w = (Reply_response r, w')"
  from create_reply_success [OF a] obtain s where
    s: "dict_get data ''content'' JNull = Inr (JStr s)" and
    r: "r = \<lparr>r_id = max_default (map r_id (fst (load_data REPLIES_FILE w))) 0 + 1,
          r_whisper_id = id', r_content = str_strip L s,
          r_created_at = isoformat L (clock w (clock_reads w))\<rparr>" and
    stored: "replies_json w' = Holds (fst (load_data REPLIES_FILE w) @ [r])"
    by auto
  show "r_id r = (if fst (load_data REPLIES_FILE w) = [] then 1
                else Max (set (map r_id (fst (load_data REPLIES_FILE w)))) + 1)"
    using r max_default_Max [of "map r_id (fst (load_data REPLIES_FILE w))" 0] by simp
  show "replies_json w' = Holds (fst (load_data REPLIES_FILE w) @ [r])" by (rule stored)
  show "\<forall>ws r2 w2. create_reply L id' data (w\<lparr>whispers_json := ws\<rparr>) = (Reply_response r2, w2)
          \<longrightarrow> r2 = r"
  proof (intro allI impI)
    fix ws r2 w2
    assume b: "create_reply L id' data (w\<lparr>whispers_json := ws\<rparr>) = (Reply_response r2, w2)"
    from create_reply_success [OF b] s r show "r2 = r"
      by (auto simp: fst_load_replies)
  qed
qed

theorem new_id_is_max_plus_one_witness:
  "fst (create_whisper example_lib (JObj [(''content'', JStr ''hello''), (''topic'', JStr ''music'')])
          (example_world (Holds [old_whisper]) (Holds []) 1704326400000000))
     = Whisper_response (music_whisper\<lparr>w_id := 3\<rparr>) \<and>
   w_id (music_whisper\<lparr>w_id := 3\<rparr>) = Max (set (map w_id [old_whisper])) + 1 \<and>
   fst (create_reply example_lib 2 (JObj [(''content'', JStr ''why'')])
          (example_world (Holds [old_whisper]) (Holds []) 1704067200000000))
     = Reply_response old_reply \<and>
   r_id old_reply = 1"
proof -
  let ?D = "JObj [(''content'', JStr ''hello''), (''topic'', JStr ''music'')]"
  let ?W = "example_world (Holds [old_whisper]) (Holds []) 1704326400000000"
  let ?E = "JObj [(''content'', JStr ''why'')]"
  let ?V = "example_world (Holds [old_whisper]) (Holds []) 1704067200000000"
  have f: "fst (create_whisper example_lib ?D ?W) = Whisper_response (music_whisper\<lparr>w_id := 3\<rparr>)"
    by (simp add: create_whisper_def load_whispers save_whispers datetime_now_def example_defs)
  then have h: "create_whisper example_lib ?D ?W
      = (Whisper_response (music_whisper\<lparr>w_id := 3\<rparr>), snd (create_whisper example_lib ?D ?W))"
    by (metis prod.collapse)
  have g: "fst (create_reply example_lib 2 ?E ?V) = Reply_response old_reply"
    by (simp add: create_reply_def load_whispers load_replies save_whispers save_replies
          datetime_now_def count_replies_def example_defs)
  then have k: "create_reply example_lib 2 ?E ?V
      = (Reply_response old_reply, snd (create_reply example_lib 2 ?E ?V))"
    by (metis prod.collapse)
  have "w_id (music_whisper\<lparr>w_id := 3\<rparr>) =
      (if fst (load_data WHISPERS_FILE ?W) = [] then 1
       else Max (set (map w_id (fst (load_data WHISPERS_FILE ?W)))) + 1)"
    using new_id_is_max_plus_one [of example_lib ?D ?W "music_whisper\<lparr>w_id := 3\<rparr>"
        "snd (create_whisper example_lib ?D ?W)"] h by blast
  moreover have "r_id old_reply =
      (if fst (load_data REPLIES_FILE ?V) = [] then 1
       else Max (set (map r_id (fst (load_data REPLIES_FILE ?V)))) + 1)"
    using new_id_is_max_plus_one [of example_lib ?E ?V _
        "snd (create_reply example_lib 2 ?E ?V)" 2 old_reply] k by blast
  ultimately show ?thesis using f g
    by (simp add: load_whispers load_replies example_world_def)
qed

text \<open>
  Claim C8. After a post was created successfully, fetching it by the id the creation
  returned succeeds; the fetched content is the submitted content as \<^verbatim>\<open>str.strip\<close> leaves
  it, which is also the content the creation returned, and topic, sensitivity flag and
  creation time are those the creation returned.
\<close>

theorem created_whisper_round_trip:
  assumes "create_whisper L data w = (Whisper_response p, w')"
  shows "\<exists>s q w''.
      dict_get data ''content'' JNull = Inr (JStr s) \<and>
      get_whisper (w_id p) w' = (Whisper_response q, w'') \<and>
      w_content q = str_strip L s \<and> w_content q = w_content p \<and>
      w_topic q = w_topic p \<and>
      w_is_sensitive q = w_is_sensitive p \<and> w_created_at q = w_created_at p"
proof -
  from create_whisper_success [OF assms] obtain s where
    s: "dict_get data ''content'' JNull = Inr (JStr s)" and
    pid: "w_id p = max_default (map w_id (fst (load_data WHISPERS_FILE w))) 0 + 1" and
    pc: "w_content p = str_strip L s" and
    stored: "whispers_json w' = Holds (fst (load_data WHISPERS_FILE w) @ [p])"
    by auto
  have "find (\<lambda>x. w_id x = w_id p) (fst (load_data WHISPERS_FILE w')) = Some p"
    using stored pid find_fresh_id [of "fst (load_data WHISPERS_FILE w)" p]
    by (simp add: load_whispers)
  then have "fst (get_whisper (w_id p) w') =
      Whisper_response (p\<lparr>w_replies_count := count_replies (w_id p) (fst (load_data REPLIES_FILE w'))\<rparr>)"
    by (simp add: get_whisper_eq)
  then show ?thesis using s pc 
    by (cases "get_whisper (w_id p) w'") auto
qed

theorem created_whisper_round_trip_witness:
  "fst (create_whisper example_lib
          (JObj [(''content'', JStr ''  hello ''), (''topic'', JStr ''music'')])
          (example_world (Holds [old_whisper]) (Holds []) 1704326400000000))
     = Whisper_response (music_whisper\<lparr>w_id := 3\<rparr>) \<and>
   (\<exists>q w''. get_whisper 3 (snd (create_whisper example_lib
          (JObj [(''content'', JStr ''  hello ''), (''topic'', JStr ''music'')])
          (example_world (Holds [old_whisper]) (Holds []) 1704326400000000)))
        = (Whisper_response q, w'') \<and>
      w_content q = ''hello'' \<and> w_topic q = Some ''music'' \<and>
      w_is_sensitive q = JBool False \<and> w_created_at q = ''2024-01-04T00:00:00+00:00'')"
proof -
  let ?D = "JObj [(''content'', JStr ''  hello ''), (''topic'', JStr ''music'')]"
  let ?W = "example_world (Holds [old_whisper]) (Holds []) 1704326400000000"
  have f: "fst (create_whisper example_lib ?D ?W) = Whisper_response (music_whisper\<lparr>w_id := 3\<rparr>)"
    by (simp add: create_whisper_def load_whispers save_whispers datetime_now_def example_defs)
  then have h: "create_whisper example_lib ?D ?W
      = (Whisper_response (music_whisper\<lparr>w_id := 3\<rparr>), snd (create_whisper example_lib ?D ?W))"
    by (metis prod.collapse)
  show ?thesis
    using f created_whisper_round_trip [OF h]
    by (auto simp: example_defs)
qed

text \<open>
  Claim C5, as amended. A create-reply request whose body carries non-empty content: if no
  stored post has the target id, it answers 404 and neither file, nor the shared timestamp,
  is changed, and no write is attempted. If a stored post has the target id, the content
  is a non-empty string, the save of the replies succeeds and the save of the posts that
  follows does not fail midway, then the request succeeds, and fetching the post afterwards
  shows a \<^verbatim>\<open>replies_count\<close> one greater than fetching it before.
\<close>

theorem create_reply_effects:
  "(dict_get data ''content'' JNull = Inr c \<and> truthy c \<and>
    find (\<lambda>x. w_id x = id') (fst (load_data WHISPERS_FILE w)) = None \<longrightarrow>
      fst (create_reply L id' data w) = Error_response 404 ''Whisper not found'' \<and>
      whispers_json (snd (create_reply L id' data w)) = whispers_json w \<and>
      replies_json (snd (create_reply L id' data w)) = replies_json w \<and>
      LAST_UPDATE_TIME (snd (create_reply L id' data w)) = LAST_UPDATE_TIME w \<and>
      writes (trace (snd (create_reply L id' data w))) = writes (trace w)) \<and>
   (dict_get data ''content'' JNull = Inr (JStr s) \<and> s \<noteq> [] \<and>
    find (\<lambda>x. w_id x = id') (fst (load_data WHISPERS_FILE w)) = Some q \<and>
    disk w (disk_writes w) = Written \<and>
    (\<forall>e. disk w (Suc (disk_writes w)) \<noteq> DumpFailed e) \<longrightarrow>
      (\<exists>r before after.
         fst (create_reply L id' data w) = Reply_response r \<and>
         fst (get_whisper id' w) = Whisper_response before \<and>
         fst (get_whisper id' (snd (create_reply L id' data w))) = Whisper_response after \<and>
         w_replies_count after = w_replies_count before + 1))"
proof (intro conjI impI)
  assume a: "dict_get data ''content'' JNull = Inr c \<and> truthy c \<and>
    find (\<lambda>x. w_id x = id') (fst (load_data WHISPERS_FILE w)) = None"
  then have "create_reply L id' data w =
           (Error_response 404 ''Whisper not found'', snd (load_data WHISPERS_FILE w))"
    by (simp add: create_reply_not_found)
  then show "fst (create_reply L id' data w) = Error_response 404 ''Whisper not found''"
    and "whispers_json (snd (create_reply L id' data w)) = whispers_json w"
    and "replies_json (snd (create_reply L id' data w)) = replies_json w"
    and "LAST_UPDATE_TIME (snd (create_reply L id' data w)) = LAST_UPDATE_TIME w"
    and "writes (trace (snd (create_reply L id' data w))) = writes (trace w)"
    by simp_all
next
  assume a: "dict_get data ''content'' JNull = Inr (JStr s) \<and> s \<noteq> [] \<and>
    find (\<lambda>x. w_id x = id') (fst (load_data WHISPERS_FILE w)) = Some q \<and>
    disk w (disk_writes w) = Written \<and>
    (\<forall>e. disk w (Suc (disk_writes w)) \<noteq> DumpFailed e)"
  let ?w' = "snd (create_reply L id' data w)"
  let ?rs = "fst (load_data REPLIES_FILE w)"
  from a create_reply_saved [of data s id' w q L] obtain r where
    r: "fst (create_reply L id' data w) = Reply_response r" "r_whisper_id r = id'" and
    rj: "replies_json ?w' = Holds (?rs @ [r])" and
    wj: "whispers_json ?w' =
             (case disk w (Suc (disk_writes w)) of
                Written \<Rightarrow> Holds (set_replies_count id'
                    (count_replies id' (?rs @ [r])) (fst (load_data WHISPERS_FILE w)))
              | OpenFailed e \<Rightarrow> whispers_json w
              | DumpFailed e \<Rightarrow> Unreadable ''truncated'')"
    by auto
  have before: "fst (get_whisper id' w) =
      Whisper_response (q\<lparr>w_replies_count := count_replies id' ?rs\<rparr>)"
    using a by (simp add: get_whisper_eq)
  have "\<exists>q'. find (\<lambda>x. w_id x = id') (fst (load_data WHISPERS_FILE ?w')) = Some q'"
    using a wj
    by (cases "disk w (Suc (disk_writes w))")
       (auto simp: fst_load_whispers find_set_replies_count)
  then obtain q' where "find (\<lambda>x. w_id x = id') (fst (load_data WHISPERS_FILE ?w')) = Some q'" ..
  then have after: "fst (get_whisper id' ?w') =
      Whisper_response (q'\<lparr>w_replies_count := count_replies id' (?rs @ [r])\<rparr>)"
    using rj by (simp add: get_whisper_eq fst_load_replies [of ?w'])
  show "\<exists>r before after.
         fst (create_reply L id' data w) = Reply_response r \<and>
         fst (get_whisper id' w) = Whisper_response before \<and>
         fst (get_whisper id' (snd (create_reply L id' data w))) = Whisper_response after \<and>
         w_replies_count after = w_replies_count before + 1"
    using r before after by (simp add: count_replies_snoc)
qed

theorem create_reply_effects_witness:
  "dict_get (JObj [(''content'', JStr ''why'')]) ''content'' JNull = Inr (JStr ''why'') \<and>
   truthy (JStr ''why'') \<and>
   find (\<lambda>x. w_id x = 7)
     (fst (load_data WHISPERS_FILE (example_world (Holds [old_whisper]) (Holds [old_reply]) 0)))
     = None \<and>
   fst (create_reply example_lib 7 (JObj [(''content'', JStr ''why'')])
          (example_world (Holds [old_whisper]) (Holds [old_reply]) 0))
     = Error_response 404 ''Whisper not found'' \<and>
   find (\<lambda>x. w_id x = 2)
     (fst (load_data WHISPERS_FILE (example_world (Holds [old_whisper]) (Holds [old_reply]) 0)))
     = Some old_whisper \<and>
   disk (example_world (Holds [old_whisper]) (Holds [old_reply]) 0)
     (disk_writes (example_world (Holds [old_whisper]) (Holds [old_reply]) 0)) = Written \<and>
   (\<exists>r before after.
      fst (create_reply example_lib 2 (JObj [(''content'', JStr ''why'')])
             (example_world (Holds [old_whisper]) (Holds [old_reply]) 0)) = Reply_response r \<and>
      fst (get_whisper 2 (example_world (Holds [old_whisper]) (Holds [old_reply]) 0))
        = Whisper_response before \<and>
      fst (get_whisper 2 (snd (create_reply example_lib 2 (JObj [(''content'', JStr ''why'')])
             (example_world (Holds [old_whisper]) (Holds [old_reply]) 0))))
        = Whisper_response after \<and>
      w_replies_count before = 1 \<and> w_replies_count after = 2)"
proof -
  let ?D = "JObj [(''content'', JStr ''why'')]"
  let ?W = "example_world (Holds [old_whisper]) (Holds [old_reply]) 0"
  have h1: "dict_get ?D ''content'' JNull = Inr (JStr ''why'') \<and> truthy (JStr ''why'') \<and>
      find (\<lambda>x. w_id x = 7) (fst (load_data WHISPERS_FILE ?W)) = None"
    by (simp add: fst_load_whispers example_defs)
  have h2: "dict_get ?D ''content'' JNull = Inr (JStr ''why'') \<and> ''why'' \<noteq> [] \<and>
      find (\<lambda>x. w_id x = 2) (fst (load_data WHISPERS_FILE ?W)) = Some old_whisper \<and>
      disk ?W (disk_writes ?W) = Written \<and>
      (\<forall>e. disk ?W (Suc (disk_writes ?W)) \<noteq> DumpFailed e)"
    by (simp add: fst_load_whispers example_defs)
  have before: "fst (get_whisper 2 ?W) = Whisper_response (old_whisper\<lparr>w_replies_count := 1\<rparr>)"
    by (simp add: run_defs example_defs)
  from create_reply_effects [of ?D "JStr ''why''" 7 ?W example_lib] h1
  have a: "fst (create_reply example_lib 7 ?D ?W) = Error_response 404 ''Whisper not found''"
    by blast
  from create_reply_effects [of ?D _ 2 ?W example_lib "''why''" old_whisper] h2
  have b: "\<exists>r before after.
         fst (create_reply example_lib 2 ?D ?W) = Reply_response r \<and>
         fst (get_whisper 2 ?W) = Whisper_response before \<and>
         fst (get_whisper 2 (snd (create_reply example_lib 2 ?D ?W))) = Whisper_response after \<and>
         w_replies_count after = w_replies_count before + 1"
    by blast
  show ?thesis
    using h1 h2 a b before by auto
qed

text \<open>
  Claim C5 as stated fails twice. With no stored post of the target id and empty content
  the answer is 400, not 404: content is validated before the post is looked up. With a
  stored post of the target id and non-empty content, when the replies cannot be saved the
  answer is 500 and the fetched \<^verbatim>\<open>replies_count\<close> is what it was.
\<close>

theorem create_reply_counterexample:
  "map w_id (fst (load_data WHISPERS_FILE (example_world (Holds []) (Holds []) 0))) = [] \<and>
   fst (create_reply example_lib 7 (JObj [(''content'', JStr '''')])
          (example_world (Holds []) (Holds []) 0))
     = Error_response 400 ''Content required'' \<and>
   map w_id (fst (load_data WHISPERS_FILE
          ((example_world (Holds [music_whisper]) (Holds []) 0)
             \<lparr>disk := (\<lambda>n. OpenFailed ''Permission denied'')\<rparr>))) = [1] \<and>
   fst (get_whisper 1
          ((example_world (Holds [music_whisper]) (Holds []) 0)
             \<lparr>disk := (\<lambda>n. OpenFailed ''Permission denied'')\<rparr>))
     = Whisper_response music_whisper \<and>
   w_replies_count music_whisper = 0 \<and>
   fst (create_reply example_lib 1 (JObj [(''content'', JStr ''hi'')])
          ((example_world (Holds [music_whisper]) (Holds []) 0)
             \<lparr>disk := (\<lambda>n. OpenFailed ''Permission denied'')\<rparr>))
     = Error_response 500 ''Save failed'' \<and>
   fst (get_whisper 1 (snd (create_reply example_lib 1 (JObj [(''content'', JStr ''hi'')])
          ((example_world (Holds [music_whisper]) (Holds []) 0)
             \<lparr>disk := (\<lambda>n. OpenFailed ''Permission denied'')\<rparr>))))
     = Whisper_response music_whisper"
  by (simp add: run_defs example_defs)

text \<open>
  Claim C1 (the code departs from it). Content that is missing or empty is rejected with
  400 and nothing changes; content of whitespace only passes the check, which is made
  before the content is stripped, and a post with empty content is stored.
\<close>

theorem create_whisper_whitespace_content:
  "fst (create_whisper example_lib (JObj [(''content'', JStr ''   '')])
          (example_world (Holds []) (Holds []) 1704326400000000))
     = Whisper_response
         \<lparr>w_id = 1, w_content = '''', w_topic = Some ''random'', w_is_sensitive = JBool False,
          w_replies_count = 0, w_created_at = ''2024-01-04T00:00:00+00:00''\<rparr> \<and>
   whispers_json (snd (create_whisper example_lib (JObj [(''content'', JStr ''   '')])
          (example_world (Holds []) (Holds []) 1704326400000000)))
     = Holds [\<lparr>w_id = 1, w_content = '''', w_topic = Some ''random'',
               w_is_sensitive = JBool False, w_replies_count = 0,
               w_created_at = ''2024-01-04T00:00:00+00:00''\<rparr>]"
  by (simp add: run_defs example_defs)

lemma create_whisper_rejects_empty:
  "\<not> truthy data \<or> (\<exists>c. dict_get data ''content'' JNull = Inr c \<and> \<not> truthy c) \<Longrightarrow>
     create_whisper L data w = (Error_response 400 ''Content required'', w)"
  by (auto simp: create_whisper_def)

section \<open>The retention sweep\<close>

text \<open>
  Claim C3. Let every loaded post carry a timestamp that denotes an instant. A sweep cycle
  finishes normally. With the cutoff 48 hours before the clock reading, the posts kept are
  exactly those created after the cutoff and the posts expired those created at or before
  it. When no post expired, no write is attempted and files and shared timestamp are as
  before. When some post expired, exactly two writes are attempted, in this order: the
  replies without those whose \<^verbatim>\<open>whisper_id\<close> is an expired id, then the kept posts; each
  file holds what was written to it when its write succeeded.
\<close>

theorem sweep_cycle:
  assumes "list_all (\<lambda>p. instant_of L p \<noteq> None) (fst (load_data WHISPERS_FILE w))"
  shows
    "let whispers = fst (load_data WHISPERS_FILE w);
         cutoff = clock w (clock_reads w) - timedelta_hours 48;
         keep = filter (created_after L cutoff) whispers;
         expire = filter (created_at_or_before L cutoff) whispers;
         filtered_replies =
           filter (\<lambda>r. r_whisper_id r \<notin> set (map w_id expire)) (fst (load_data REPLIES_FILE w));
         w' = snd (cleanup_old_whispers L w)
     in fst (cleanup_old_whispers L w) \<and>
        (expire = [] \<longrightarrow>
           writes (trace w') = writes (trace w) \<and>
           whispers_json w' = whispers_json w \<and> replies_json w' = replies_json w \<and>
           LAST_UPDATE_TIME w' = LAST_UPDATE_TIME w) \<and>
        (expire \<noteq> [] \<longrightarrow>
           writes (trace w') =
             writes (trace w) @
               [Write_replies filtered_replies (disk w (disk_writes w)),
                Write_whispers keep (disk w (Suc (disk_writes w)))] \<and>
           (disk w (Suc (disk_writes w)) = Written \<longrightarrow> whispers_json w' = Holds keep) \<and>
           (disk w (disk_writes w) = Written \<longrightarrow> replies_json w' = Holds filtered_replies))"
proof (cases "filter (created_at_or_before L (clock w (clock_reads w) - timedelta_hours 48))
           (fst (load_data WHISPERS_FILE w)) = []")
  case True
  show ?thesis
    using True by (simp add: cleanup_nothing_expired [OF assms True] Let_def)
next
  case False
  show ?thesis
    using False
    by (simp add: cleanup_expired [OF assms False] Let_def save_whispers_frame save_replies_frame)
qed

theorem sweep_cycle_witness:
  "list_all (\<lambda>p. instant_of example_lib p \<noteq> None)
     (fst (load_data WHISPERS_FILE
        (example_world (Holds [music_whisper, old_whisper]) (Holds [old_reply]) 1704326400000000))) \<and>
   fst (cleanup_old_whispers example_lib
        (example_world (Holds [music_whisper, old_whisper]) (Holds [old_reply]) 1704326400000000)) \<and>
   writes (trace (snd (cleanup_old_whispers example_lib
        (example_world (Holds [music_whisper, old_whisper]) (Holds [old_reply]) 1704326400000000))))
     = [Write_replies [] Written, Write_whispers [music_whisper] Written] \<and>
   whispers_json (snd (cleanup_old_whispers example_lib
        (example_world (Holds [music_whisper, old_whisper]) (Holds [old_reply]) 1704326400000000)))
     = Holds [music_whisper] \<and>
   replies_json (snd (cleanup_old_whispers example_lib
        (example_world (Holds [music_whisper, old_whisper]) (Holds [old_reply]) 1704326400000000)))
     = Holds [] \<and>
   list_all (\<lambda>p. instant_of example_lib p \<noteq> None)
     (fst (load_data WHISPERS_FILE
        (example_world (Holds [music_whisper]) (Holds [old_reply]) 1704326400000000))) \<and>
   writes (trace (snd (cleanup_old_whispers example_lib
        (example_world (Holds [music_whisper]) (Holds [old_reply]) 1704326400000000)))) = [] \<and>
   replies_json (snd (cleanup_old_whispers example_lib
        (example_world (Holds [music_whisper]) (Holds [old_reply]) 1704326400000000)))
     = Holds [old_reply]"
proof -
  let ?W = "example_world (Holds [music_whisper, old_whisper]) (Holds [old_reply]) 1704326400000000"
  let ?V = "example_world (Holds [music_whisper]) (Holds [old_reply]) 1704326400000000"
  have h: "list_all (\<lambda>p. instant_of example_lib p \<noteq> None) (fst (load_data WHISPERS_FILE ?W))"
    by (simp add: fst_load_whispers example_world_def example_instants)
  have k: "list_all (\<lambda>p. instant_of example_lib p \<noteq> None) (fst (load_data WHISPERS_FILE ?V))"
    by (simp add: fst_load_whispers example_world_def example_instants)
  have facts:
    "fst (load_data WHISPERS_FILE ?W) = [music_whisper, old_whisper]"
    "fst (load_data WHISPERS_FILE ?V) = [music_whisper]"
    "fst (load_data REPLIES_FILE ?W) = [old_reply]"
    "fst (load_data REPLIES_FILE ?V) = [old_reply]"
    "clock ?W (clock_reads ?W) = 1704326400000000"
    "clock ?V (clock_reads ?V) = 1704326400000000"
    "disk ?W (disk_writes ?W) = Written" "disk ?W (Suc (disk_writes ?W)) = Written"
    "trace ?W = []" "trace ?V = []"
    "replies_json ?V = Holds [old_reply]"
    by (simp_all add: fst_load_whispers fst_load_replies example_world_def)
  have preds:
    "created_after example_lib (1704326400000000 - timedelta_hours 48) music_whisper"
    "\<not> created_after example_lib (1704326400000000 - timedelta_hours 48) old_whisper"
    "\<not> created_at_or_before example_lib (1704326400000000 - timedelta_hours 48) music_whisper"
    "created_at_or_before example_lib (1704326400000000 - timedelta_hours 48) old_whisper"
    by (simp_all add: created_after_def created_at_or_before_def example_instants timedelta_hours_def)
  have ids: "w_id old_whisper = 2" "r_whisper_id old_reply = 2"
    by (simp_all add: old_whisper_def old_reply_def)
  have parts:
    "filter (created_after example_lib (1704326400000000 - timedelta_hours 48))
       [music_whisper, old_whisper] = [music_whisper]"
    "filter (created_at_or_before example_lib (1704326400000000 - timedelta_hours 48))
       [music_whisper, old_whisper] = [old_whisper]"
    "filter (created_at_or_before example_lib (1704326400000000 - timedelta_hours 48))
       [music_whisper] = []"
    by (simp_all add: preds)
  from sweep_cycle [OF h] have a:
    "fst (cleanup_old_whispers example_lib ?W) \<and>
     writes (trace (snd (cleanup_old_whispers example_lib ?W)))
       = [Write_replies [] Written, Write_whispers [music_whisper] Written] \<and>
     whispers_json (snd (cleanup_old_whispers example_lib ?W)) = Holds [music_whisper] \<and>
     replies_json (snd (cleanup_old_whispers example_lib ?W)) = Holds []"
    by (simp add: Let_def facts parts preds ids del: set_filter)
  from sweep_cycle [OF k] have b:
    "writes (trace (snd (cleanup_old_whispers example_lib ?V))) = [] \<and>
     replies_json (snd (cleanup_old_whispers example_lib ?V)) = Holds [old_reply]"
    by (simp add: Let_def facts parts preds del: set_filter)
  show ?thesis
    using h k a b by simp
qed

section \<open>Listing and change notification\<close>

text \<open>
  Claim C2 (the code departs from it). A check-updates request with a topic outside the
  fixed set does not fall back to \<^verbatim>\<open>'all'\<close> and succeed: the branch that replaces the topic
  never binds \<^verbatim>\<open>current_count\<close>, so building the response raises UnboundLocalError and the
  handler answers 500. With a topic of the fixed set the same request succeeds.
\<close>

theorem check_updates_unknown_topic_fails:
  "''bogus'' \<notin> set ALL_TOPICS \<and>
   fst (check_updates example_lib (Some ''2024-01-01T00:00:00+00:00'') (Some ''bogus'')
          (example_world (Holds [music_whisper]) (Holds []) 1704326400000000))
     = Error_response 500 ''UnboundLocalError'' \<and>
   fst (check_updates example_lib (Some ''2024-01-01T00:00:00+00:00'') (Some ''music'')
          (example_world (Holds [music_whisper]) (Holds []) 1704326400000000))
     = Updates_response False ''2024-01-01T00:00:00+00:00'' 1 ''music''"
  by (simp add: run_defs example_defs)

lemma check_updates_unrecognised_topic:
  "t \<noteq> [] \<Longrightarrow> t \<noteq> ''all'' \<Longrightarrow> t \<notin> set ALL_TOPICS \<Longrightarrow>
     check_updates L last_client_update (Some t) w
       = (Error_response 500 ''UnboundLocalError'', snd (load_data WHISPERS_FILE w))"
  by (simp add: check_updates_def case_prod_unfold)

text \<open>
  Claim C4 (the code departs from it). A check-updates request without \<^verbatim>\<open>last_update\<close>
  and with a topic outside the fixed set is answered with the 500 response above, which
  reports no staleness at all.
\<close>

theorem check_updates_no_timestamp_unknown_topic:
  "fst (check_updates example_lib None (Some ''bogus'')
          (example_world (Holds [music_whisper]) (Holds []) 1704326400000000))
     = Error_response 500 ''UnboundLocalError''"
  by (simp add: run_defs example_defs)

text \<open>
  On every other request the staleness rule holds as claimed: no timestamp, an empty one,
  one that does not parse or parses to a naive datetime give stale; an aware one gives
  stale exactly when it is earlier than the shared timestamp.
\<close>

lemma check_updates_staleness:
  assumes "handled_topic topic_arg"
  shows "\<exists>n t. fst (check_updates L last_client_update topic_arg w) =
           Updates_response
             (case last_client_update of
                None \<Rightarrow> True
              | Some s \<Rightarrow>
                  (case fromisoformat L (replace_Z s) of
                     Some (Aware client_time) \<Rightarrow> s = [] \<or> client_time < LAST_UPDATE_TIME w
                   | _ \<Rightarrow> True))
             (isoformat L (LAST_UPDATE_TIME w)) n t"
  using assms
  by (auto simp: handled_topic_def check_updates_def case_prod_unfold parse_timestamp_def Let_def
           split: option.splits parsed.splits)

text \<open>
  Claim C6 (the code departs from it). A list request with a topic outside the fixed set
  replaces the topic by \<^verbatim>\<open>'all'\<close> and then still filters by it, so it lists only posts
  whose stored topic is literally \<^verbatim>\<open>'all'\<close>: here none, while the topic \<^verbatim>\<open>'all'\<close> itself
  lists the stored post.
\<close>

theorem get_whispers_unknown_topic_lists_nothing:
  "''bogus'' \<notin> set ALL_TOPICS \<and>
   fst (get_whispers example_lib (Some ''bogus'')
          (example_world (Holds [music_whisper]) (Holds []) 1704326400000000))
     = Whispers_response [] ''2024-01-01T00:00:00+00:00'' ''all'' \<and>
   fst (get_whispers example_lib (Some ''all'')
          (example_world (Holds [music_whisper]) (Holds []) 1704326400000000))
     = Whispers_response [music_whisper] ''2024-01-01T00:00:00+00:00'' ''all''"
  by (simp add: run_defs example_defs instant_of_def)

text \<open>
  The rest of the claim holds: with a topic of the fixed set every listed post has that
  topic (the stored one, or \<^verbatim>\<open>'random'\<close> when the record has none), the posts are in
  descending order of their \<^verbatim>\<open>created_at\<close> strings, and the response carries the shared
  timestamp and the topic.
\<close>

lemma get_whispers_recognised_topic:
  assumes "t \<in> set ALL_TOPICS"
    and "get_whispers L (Some t) w = (Whispers_response xs last_update current_topic, w')"
  shows "list_all (\<lambda>x. whisper_topic x = t) xs \<and> current_topic = t \<and>
         sorted (rev (map w_created_at xs)) \<and>
         last_update = isoformat L (LAST_UPDATE_TIME w')"
proof -
  have "''all'' \<notin> set ALL_TOPICS" "[] \<notin> set ALL_TOPICS"
    by (simp_all add: ALL_TOPICS_def)
  with assms have t: "t \<noteq> []" "t \<noteq> ''all''" by auto
  from assms(2) t assms(1) show ?thesis
    by (auto simp: get_whispers_def case_prod_unfold Let_def sort_reverse_def rev_map
                   list_all_iff)
qed

lemma get_whispers_unrecognised_topic:
  assumes "t \<noteq> []" "t \<noteq> ''all''" "t \<notin> set ALL_TOPICS"
    and "get_whispers L (Some t) w = (Whispers_response xs last_update current_topic, w')"
  shows "list_all (\<lambda>x. whisper_topic x = ''all'') xs \<and> current_topic = ''all''"
  using assms
  by (auto simp: get_whispers_def case_prod_unfold Let_def sort_reverse_def list_all_iff)

end
